theory Spec2Isabelle
  imports Complex_Main "HOL-Library.AList" "HOL-Library.Multiset"
begin

section \<open>Cards\<close>

text \<open>
  Both \<^verbatim>\<open>BTBSimulator.py\<close> and \<^verbatim>\<open>BTBGamePlayer.py\<close> declare the same class
  \<^verbatim>\<open>Card\<close> with the fields \<^verbatim>\<open>value\<close>, \<^verbatim>\<open>suit\<close> and \<^verbatim>\<open>is_joker\<close>. The class
  defines no \<^verbatim>\<open>__eq__\<close>; the model compares cards field by field. The suit
  symbols of the source are written with the letters S, H, D and C, the joker's
  empty suit stays the empty string.
\<close>

record Card =
  card_value :: int
  suit :: string
  is_joker :: bool

definition Card_init :: "int \<Rightarrow> string \<Rightarrow> bool \<Rightarrow> Card" where
  "Card_init v s j = \<lparr>card_value = (if v = 1 then 14 else v), suit = s, is_joker = j\<rparr>"

definition get_playing_value :: "Card \<Rightarrow> int" where
  "get_playing_value c = card_value c"

section \<open>The simulator's game state (BTBSimulator.py)\<close>

text \<open>
  \<^verbatim>\<open>failed_boxes\<close> is a Python dict from position to card; it is kept as an
  association list in insertion order. The threshold is a float in the source and
  an exact rational here.
\<close>

record GameState =
  visible_cards :: "Card option list"
  remaining_deck :: "Card list"
  failed_boxes :: "(int \<times> Card) list"
  inclusive_moves_remaining :: int
  inclusive_threshold :: rat
  moves_used :: int
  inclusive_moves_used :: int
  jokers_drawn :: int

definition is_game_over :: "GameState \<Rightarrow> bool" where
  "is_game_over s =
     (list_all (\<lambda>c. c = None) (visible_cards s) \<or> remaining_deck s = [])"

definition has_won :: "GameState \<Rightarrow> bool" where
  "has_won s =
     (remaining_deck s = [] \<and> list_ex (\<lambda>c. c \<noteq> None) (visible_cards s))"

text \<open>
  The four move kinds are passed around as the strings \<^verbatim>\<open>'higher'\<close>,
  \<^verbatim>\<open>'lower'\<close>, \<^verbatim>\<open>'higher_equal'\<close> and \<^verbatim>\<open>'lower_equal'\<close>. The test
  \<^verbatim>\<open>'equal' in move_type\<close> holds for the last two of them.
\<close>

datatype move_type = Higher | Lower | Higher_equal | Lower_equal

definition is_inclusive :: "move_type \<Rightarrow> bool" where
  "is_inclusive move = (case move of Higher \<Rightarrow> False | Lower \<Rightarrow> False
     | Higher_equal \<Rightarrow> True | Lower_equal \<Rightarrow> True)"

datatype py_error = IndexError | AttributeError | KeyError | ZeroDivisionError

text \<open>
  Subscripting a Python list of length \<open>n\<close> with \<open>i\<close> reads slot \<open>i\<close> when
  \<open>0 \<le> i < n\<close>, slot \<open>n + i\<close> when \<open>-n \<le> i < 0\<close>, and raises IndexError
  otherwise. \<open>slot_of\<close> gives the slot that is read or written.
\<close>

definition slot_of :: "'a list \<Rightarrow> int \<Rightarrow> nat option" where
  "slot_of xs i =
     (if 0 \<le> i \<and> i < int (length xs) then Some (nat i)
      else if i < 0 \<and> - int (length xs) \<le> i then Some (nat (int (length xs) + i))
      else None)"

definition check_move_success :: "move_type \<Rightarrow> Card \<Rightarrow> Card \<Rightarrow> bool" where
  "check_move_success move drawn_card target_card =
     (if is_joker drawn_card \<or> is_joker target_card then True
      else case move of
          Higher \<Rightarrow> card_value drawn_card > card_value target_card
        | Lower \<Rightarrow> card_value drawn_card < card_value target_card
        | Higher_equal \<Rightarrow> card_value drawn_card \<ge> card_value target_card
        | Lower_equal \<Rightarrow> card_value drawn_card \<le> card_value target_card)"

definition is_exact_match :: "Card \<Rightarrow> Card \<Rightarrow> bool" where
  "is_exact_match card1 card2 =
     (if is_joker card1 \<or> is_joker card2 then True
      else card_value card1 = card_value card2)"

definition recover_position :: "GameState \<Rightarrow> int \<Rightarrow> py_error + (bool \<times> GameState)" where
  "recover_position s position =
     (case map_of (failed_boxes s) position of
        None \<Rightarrow> Inr (False, s)
      | Some c \<Rightarrow>
          (case slot_of (visible_cards s) position of
             None \<Rightarrow> Inl IndexError
           | Some j \<Rightarrow>
               Inr (True, s\<lparr>visible_cards := (visible_cards s)[j := Some c],
                           failed_boxes := AList.delete position (failed_boxes s)\<rparr>)))"

text \<open>
  \<^verbatim>\<open>execute_move\<close> mutates the state and returns the success flag; the model
  returns the flag with the new state. The function has no error return of its
  own: the only exception it can raise is the IndexError of a subscript.
\<close>

definition execute_move ::
  "GameState \<Rightarrow> int \<Rightarrow> move_type \<Rightarrow> int option \<Rightarrow> py_error + (bool \<times> GameState)" where
  "execute_move s position move recovery_position =
     (case remaining_deck s of
        [] \<Rightarrow> Inr (False, s)
      | drawn_card # rest \<Rightarrow>
          if position \<ge> int (length (visible_cards s)) then Inr (False, s)
          else case slot_of (visible_cards s) position of
            None \<Rightarrow> Inl IndexError
          | Some j \<Rightarrow>
             (case visible_cards s ! j of
                None \<Rightarrow> Inr (False, s)
              | Some target_card \<Rightarrow>
                 let s1 = s\<lparr>remaining_deck := rest\<rparr>;
                     s2 = (if is_joker drawn_card
                           then s1\<lparr>jokers_drawn := jokers_drawn s1 + 1\<rparr> else s1);
                     s3 = s2\<lparr>moves_used := moves_used s2 + 1\<rparr>;
                     s4 = (if is_inclusive move
                           then s3\<lparr>inclusive_moves_used := inclusive_moves_used s3 + 1,
                                   inclusive_moves_remaining :=
                                     inclusive_moves_remaining s3 - 1\<rparr>
                           else s3)
                 in if check_move_success move drawn_card target_card
                    then
                      let s5 = s4\<lparr>visible_cards :=
                                     (visible_cards s4)[j := Some drawn_card]\<rparr>
                      in (case recovery_position of
                            None \<Rightarrow> Inr (True, s5)
                          | Some r \<Rightarrow>
                              if is_inclusive move \<and>
                                 (is_exact_match drawn_card target_card \<or>
                                  is_joker drawn_card)
                              then (case recover_position s5 r of
                                      Inl e \<Rightarrow> Inl e
                                    | Inr (_, s6) \<Rightarrow> Inr (True, s6))
                              else Inr (True, s5))
                    else Inr (False,
                           s4\<lparr>failed_boxes :=
                                 AList.update position target_card (failed_boxes s4),
                               visible_cards := (visible_cards s4)[j := None]\<rparr>)))"

definition GameState_init ::
  "Card option list \<Rightarrow> Card list \<Rightarrow> int \<Rightarrow> rat \<Rightarrow> GameState" where
  "GameState_init visible deck inclusive_moves threshold =
     \<lparr>visible_cards = visible, remaining_deck = deck, failed_boxes = [],
      inclusive_moves_remaining = inclusive_moves, inclusive_threshold = threshold,
      moves_used = 0, inclusive_moves_used = 0, jokers_drawn = 0\<rparr>"

section \<open>The simulator's probabilities and heuristic player (BTBSimulator.py)\<close>

text \<open>
  Percentages are Python floats in the source. The model computes them as exact
  rationals from the same integer counts. \<^verbatim>\<open>calculate_move_probabilities\<close>
  returns the empty dict for an empty deck, which is \<open>None\<close> here.
\<close>

record probs =
  higher :: rat
  lower :: rat
  higher_equal :: rat
  lower_equal :: rat
  exact_match :: rat

definition count_where :: "('a \<Rightarrow> bool) \<Rightarrow> 'a list \<Rightarrow> int" where
  "count_where P xs = int (length (filter P xs))"

definition calculate_move_probabilities :: "Card \<Rightarrow> Card list \<Rightarrow> probs option" where
  "calculate_move_probabilities visible_card deck =
     (if deck = [] then None
      else if is_joker visible_card then
        Some \<lparr>higher = 100, lower = 100, higher_equal = 100, lower_equal = 100,
              exact_match = 100\<rparr>
      else
        let total_cards = int (length deck);
            joker_count = count_where is_joker deck;
            target_value = card_value visible_card;
            n_higher = count_where (\<lambda>c. is_joker c \<or>
                         (\<not> is_joker c \<and> card_value c > target_value)) deck;
            n_lower = count_where (\<lambda>c. is_joker c \<or>
                         (\<not> is_joker c \<and> card_value c < target_value)) deck;
            n_equal = count_where (\<lambda>c. \<not> is_joker c \<and>
                         card_value c = target_value) deck
        in Some \<lparr>higher = of_int n_higher / of_int total_cards * 100,
                 lower = of_int n_lower / of_int total_cards * 100,
                 higher_equal = of_int (n_higher + n_equal) / of_int total_cards * 100,
                 lower_equal = of_int (n_lower + n_equal) / of_int total_cards * 100,
                 exact_match = of_int (n_equal + joker_count) / of_int total_cards * 100\<rparr>)"

definition prob_of :: "probs \<Rightarrow> move_type \<Rightarrow> rat" where
  "prob_of p move = (case move of Higher \<Rightarrow> higher p | Lower \<Rightarrow> lower p
     | Higher_equal \<Rightarrow> higher_equal p | Lower_equal \<Rightarrow> lower_equal p)"

text \<open>
  \<^verbatim>\<open>find_best_move\<close> carries \<^verbatim>\<open>best_prob\<close> and \<^verbatim>\<open>best_move\<close> through two
  nested loops. \<open>regular_step\<close> and \<open>inclusive_step\<close> are the bodies of the two
  inner loops, \<open>position_step\<close> is the body of the loop over the positions.
\<close>

type_synonym best = "rat \<times> (int \<times> move_type \<times> int option) option"

definition regular_step :: "probs \<Rightarrow> int \<Rightarrow> move_type \<Rightarrow> best \<Rightarrow> best" where
  "regular_step p pos move acc =
     (case acc of (best_prob, best_move) \<Rightarrow>
        if prob_of p move > best_prob
        then (prob_of p move, Some (pos, move, None))
        else (best_prob, best_move))"

definition should_use_inclusive :: "GameState \<Rightarrow> probs \<Rightarrow> rat \<Rightarrow> rat \<Rightarrow> bool" where
  "should_use_inclusive s p current_prob best_prob =
     (current_prob > best_prob + inclusive_threshold s \<or>
      (current_prob > best_prob \<and> exact_match p > 20))"

definition inclusive_step :: "GameState \<Rightarrow> probs \<Rightarrow> int \<Rightarrow> move_type \<Rightarrow> best \<Rightarrow> best" where
  "inclusive_step s p pos move acc =
     (case acc of (best_prob, best_move) \<Rightarrow>
        let current_prob = prob_of p move in
        if should_use_inclusive s p current_prob best_prob
        then
          let recovery_pos =
                (if failed_boxes s \<noteq> [] \<and> exact_match p > 20
                 then Some (Max (set (map fst (failed_boxes s))))
                 else None)
          in (current_prob, Some (pos, move, recovery_pos))
        else (best_prob, best_move))"

definition position_step :: "GameState \<Rightarrow> nat \<times> Card option \<Rightarrow> best \<Rightarrow> best" where
  "position_step s entry acc =
     (case entry of (pos, slot) \<Rightarrow>
        (case slot of
           None \<Rightarrow> acc
         | Some c \<Rightarrow>
            (case calculate_move_probabilities c (remaining_deck s) of
               None \<Rightarrow> acc
             | Some p \<Rightarrow>
                 let acc1 = fold (regular_step p (int pos)) [Higher, Lower] acc in
                 if inclusive_moves_remaining s > 0
                 then fold (inclusive_step s p (int pos)) [Higher_equal, Lower_equal] acc1
                 else acc1)))"

definition find_best_move :: "GameState \<Rightarrow> (int \<times> move_type \<times> int option) option" where
  "find_best_move s =
     snd (fold (position_step s) (enumerate 0 (visible_cards s)) (- 1, None))"

definition make_best_move :: "GameState \<Rightarrow> py_error + (bool \<times> GameState)" where
  "make_best_move s =
     (case filter (\<lambda>i. visible_cards s ! i \<noteq> None) [0 ..< length (visible_cards s)] of
        [] \<Rightarrow> Inr (False, s)
      | first_valid # _ \<Rightarrow>
          (case find_best_move s of
             None \<Rightarrow>
               (case visible_cards s ! first_valid of
                  None \<Rightarrow> Inl AttributeError
                | Some c \<Rightarrow>
                    execute_move s (int first_valid)
                      (if card_value c \<le> 7 then Higher else Lower) None)
           | Some (pos, move, recovery_position) \<Rightarrow>
               execute_move s pos move recovery_position))"

section \<open>The interactive game (BTBGamePlayer.py)\<close>

text \<open>
  \<^verbatim>\<open>GameMove\<close> is the undo record and \<^verbatim>\<open>NineBoxGame\<close> the game object. The
  fields carry the prefixes \<open>m_\<close> and \<open>g_\<close> because several of them share their
  names with fields of the simulator's state. \<^verbatim>\<open>move_history\<close> is a deque used
  as a stack; the list \<open>g_move_history\<close> has the most recent move at its head.
\<close>

record GameMove =
  m_drawn_card :: "Card option"
  m_position :: int
  m_old_card :: "Card option"
  m_used_inclusive :: bool
  m_failed_boxes :: "(int \<times> Card) list"
  m_inclusive_moves_remaining :: int
  m_count1 :: int
  m_count2 :: int
  m_count3 :: int

record NineBoxGame =
  g_deck :: "Card list"
  g_visible_cards :: "Card option list"
  g_remaining_deck :: "Card list"
  g_move_history :: "GameMove list"
  g_inclusive_choices_remaining :: int
  g_failed_boxes :: "(int \<times> Card) list"
  g_num_jokers :: int
  g_show_failed_cards :: bool

definition draw_card :: "NineBoxGame \<Rightarrow> Card option" where
  "draw_card g = (case g_remaining_deck g of [] \<Rightarrow> None | c # _ \<Rightarrow> Some c)"

definition remove_top_card :: "NineBoxGame \<Rightarrow> NineBoxGame" where
  "remove_top_card g =
     (case g_remaining_deck g of [] \<Rightarrow> g | _ # rest \<Rightarrow> g\<lparr>g_remaining_deck := rest\<rparr>)"

definition use_inclusive_choice :: "NineBoxGame \<Rightarrow> bool \<times> NineBoxGame" where
  "use_inclusive_choice g =
     (if g_inclusive_choices_remaining g > 0
      then (True, g\<lparr>g_inclusive_choices_remaining := g_inclusive_choices_remaining g - 1\<rparr>)
      else (False, g))"

definition compare_cards :: "Card \<Rightarrow> Card \<Rightarrow> string" where
  "compare_cards card1 card2 =
     (if is_joker card1 then ''equal''
      else if get_playing_value card1 = get_playing_value card2 then ''equal''
      else if get_playing_value card1 > get_playing_value card2 then ''higher''
      else ''lower'')"

definition undo_last_move :: "NineBoxGame \<Rightarrow> py_error + (bool \<times> NineBoxGame)" where
  "undo_last_move g =
     (case g_move_history g of
        [] \<Rightarrow> Inr (False, g)
      | last_move # earlier \<Rightarrow>
          (case slot_of (g_visible_cards g) (m_position last_move) of
             None \<Rightarrow> Inl IndexError
           | Some j \<Rightarrow>
               Inr (True,
                 g\<lparr>g_move_history := earlier,
                   g_visible_cards := (g_visible_cards g)[j := m_old_card last_move],
                   g_failed_boxes := m_failed_boxes last_move,
                   g_remaining_deck :=
                     (case m_drawn_card last_move of
                        None \<Rightarrow> g_remaining_deck g
                      | Some d \<Rightarrow>
                          (if is_joker d then Card_init 0 [] True else d)
                            # g_remaining_deck g),
                   g_inclusive_choices_remaining :=
                     m_inclusive_moves_remaining last_move\<rparr>)))"

text \<open>
  \<^verbatim>\<open>calculate_probabilities\<close> fills a dict keyed by the card object and the
  direction. Every visible card is an object of its own, so no key is written
  twice; the model lists the entries in the order in which they are written.
\<close>

definition card_probabilities :: "NineBoxGame \<Rightarrow> Card \<Rightarrow> ((Card \<times> move_type) \<times> rat) list" where
  "card_probabilities g visible_card =
     (let total = int (length (g_remaining_deck g)) in
      if total = 0 then []
      else
        let joker_count = count_where is_joker (g_remaining_deck g);
            regular_cards = filter (\<lambda>c. \<not> is_joker c) (g_remaining_deck g);
            higher_count = count_where (\<lambda>c. get_playing_value c >
                              get_playing_value visible_card) regular_cards + joker_count;
            lower_count = count_where (\<lambda>c. get_playing_value c <
                              get_playing_value visible_card) regular_cards + joker_count;
            equal_count = count_where (\<lambda>c. get_playing_value c =
                              get_playing_value visible_card) regular_cards + joker_count
        in [((visible_card, Higher),
               of_int higher_count / of_int (total + joker_count) * 100),
            ((visible_card, Lower),
               of_int lower_count / of_int (total + joker_count) * 100)] @
           (if g_inclusive_choices_remaining g > 0
            then [((visible_card, Higher_equal),
                     of_int (higher_count + equal_count) / of_int (total + joker_count) * 100),
                  ((visible_card, Lower_equal),
                     of_int (lower_count + equal_count) / of_int (total + joker_count) * 100)]
            else []))"

definition calculate_probabilities :: "NineBoxGame \<Rightarrow> ((Card \<times> move_type) \<times> rat) list" where
  "calculate_probabilities g =
     concat (map (\<lambda>slot. case slot of None \<Rightarrow> [] | Some c \<Rightarrow> card_probabilities g c)
       (g_visible_cards g))"

text \<open>
  \<^verbatim>\<open>NineBoxGUI\<close> owns the game and the three card-counting totals. Its widgets
  are not part of the model.
\<close>

record NineBoxGUI =
  game :: NineBoxGame
  count1 :: int
  count2 :: int
  count3 :: int

definition check_play_success :: "Card \<Rightarrow> Card \<Rightarrow> move_type \<Rightarrow> string \<Rightarrow> bool" where
  "check_play_success drawn target_card player_choice actual_result =
     (if is_joker drawn then True
      else case player_choice of
          Higher \<Rightarrow> get_playing_value drawn > get_playing_value target_card
        | Lower \<Rightarrow> get_playing_value drawn < get_playing_value target_card
        | Higher_equal \<Rightarrow> get_playing_value drawn \<ge> get_playing_value target_card
        | Lower_equal \<Rightarrow> get_playing_value drawn \<le> get_playing_value target_card)"

definition update_counts :: "NineBoxGUI \<Rightarrow> Card \<Rightarrow> NineBoxGUI" where
  "update_counts gui c =
     (if is_joker c then gui
      else
        let v = get_playing_value c in
        gui\<lparr>count1 := (if v > 8 then count1 gui + 1
                        else if v < 8 then count1 gui - 1 else count1 gui),
            count2 := (if v \<in> set [12, 13, 14] then count2 gui + 2
                        else if v \<in> set [9, 10, 11] then count2 gui + 1
                        else if v \<in> set [5, 6, 7] then count2 gui - 1
                        else if v \<in> set [2, 3, 4] then count2 gui - 2
                        else count2 gui),
            count3 := (if v \<in> set [13, 14] then count3 gui + 3
                        else if v \<in> set [11, 12] then count3 gui + 2
                        else if v \<in> set [9, 10] then count3 gui + 1
                        else if v \<in> set [6, 7] then count3 gui - 1
                        else if v \<in> set [4, 5] then count3 gui - 2
                        else if v \<in> set [2, 3] then count3 gui - 3
                        else count3 gui)\<rparr>)"

definition finish_play :: "NineBoxGUI \<Rightarrow> NineBoxGame \<Rightarrow> NineBoxGUI" where
  "finish_play gui g = gui\<lparr>game := remove_top_card g\<rparr>"

definition process_play :: "NineBoxGUI \<Rightarrow> int \<Rightarrow> move_type \<Rightarrow> py_error + NineBoxGUI" where
  "process_play gui position player_choice =
     (let inclusive_at_start = g_inclusive_choices_remaining (game gui);
          used_incl = is_inclusive player_choice
      in case (if used_incl then use_inclusive_choice (game gui) else (True, game gui)) of
           (False, _) \<Rightarrow> Inr gui
         | (True, g1) \<Rightarrow>
            (case slot_of (g_visible_cards g1) position of
               None \<Rightarrow> Inl IndexError
             | Some j \<Rightarrow>
                (case draw_card g1 of
                   None \<Rightarrow> Inr (gui\<lparr>game := g1\<rparr>)
                 | Some drawn \<Rightarrow>
                    let target_slot = g_visible_cards g1 ! j;
                        gui1 = update_counts gui drawn;
                        g2 = g1\<lparr>g_move_history :=
                               \<lparr>m_drawn_card = Some drawn, m_position = position,
                                m_old_card = target_slot, m_used_inclusive = used_incl,
                                m_failed_boxes = g_failed_boxes g1,
                                m_inclusive_moves_remaining = inclusive_at_start,
                                m_count1 = count1 gui1, m_count2 = count2 gui1,
                                m_count3 = count3 gui1\<rparr> # g_move_history g1\<rparr>;
                        joker_play = finish_play gui1
                          (g2\<lparr>g_visible_cards := (g_visible_cards g2)[j := Some drawn]\<rparr>)
                    in if is_joker drawn then Inr joker_play
                       else
                         (case target_slot of
                            None \<Rightarrow> Inl AttributeError
                          | Some target_card \<Rightarrow>
                              if is_joker target_card then Inr joker_play
                              else if check_play_success drawn target_card player_choice
                                        (compare_cards drawn target_card)
                              then Inr (finish_play gui1
                                     (g2\<lparr>g_visible_cards :=
                                           (g_visible_cards g2)[j := Some drawn]\<rparr>))
                              else Inr (finish_play gui1
                                     (g2\<lparr>g_failed_boxes :=
                                           AList.update position target_card (g_failed_boxes g2),
                                         g_visible_cards :=
                                           (g_visible_cards g2)[j := None]\<rparr>))))))"

definition undo_move :: "NineBoxGUI \<Rightarrow> py_error + NineBoxGUI" where
  "undo_move gui =
     (case g_move_history (game gui) of
        [] \<Rightarrow> Inr gui
      | last_move # _ \<Rightarrow>
          (case undo_last_move (game gui) of
             Inl e \<Rightarrow> Inl e
           | Inr (True, g') \<Rightarrow>
               Inr (gui\<lparr>game := g', count1 := m_count1 last_move,
                        count2 := m_count2 last_move, count3 := m_count3 last_move\<rparr>)
           | Inr (False, g') \<Rightarrow> Inr (gui\<lparr>game := g'\<rparr>)))"

section \<open>The game with chosen cards (BTBGameAid.py)\<close>

text \<open>
  \<^verbatim>\<open>CustomGameGUI\<close> inherits from \<^verbatim>\<open>NineBoxGUI\<close> and overrides
  \<^verbatim>\<open>card_button_click\<close> and \<^verbatim>\<open>process_play\<close>; undo is inherited. The player
  picks the next card from a combobox that lists \<^verbatim>\<open>str(card)\<close> of the remaining
  deck, and \<^verbatim>\<open>parse_card\<close> turns the chosen text into a card again. The
  argument \<open>drawn\<close> below is that parsed card. \<open>Card_str\<close> is \<^verbatim>\<open>Card.__str__\<close>,
  with the joker symbol written \<open>JOKER\<close>.
\<close>

fun str_nat :: "nat \<Rightarrow> string" where
  "str_nat n =
     (if n < 10 then [''0123456789'' ! n]
      else str_nat (n div 10) @ [''0123456789'' ! (n mod 10)])"

definition str_int :: "int \<Rightarrow> string" where
  "str_int i = (if i < 0 then CHR ''-'' # str_nat (nat (- i)) else str_nat (nat i))"

definition Card_str :: "Card \<Rightarrow> string" where
  "Card_str c =
     (if is_joker c then ''JOKER''
      else (case map_of [(14, ''A''), (11, ''J''), (12, ''Q''), (13, ''K'')] (card_value c) of
              Some face \<Rightarrow> face
            | None \<Rightarrow> str_int (card_value c)) @ suit c)"

definition choice_name :: "move_type \<Rightarrow> string" where
  "choice_name move = (case move of Higher \<Rightarrow> ''higher'' | Lower \<Rightarrow> ''lower''
     | Higher_equal \<Rightarrow> ''higher_equal'' | Lower_equal \<Rightarrow> ''lower_equal'')"

definition custom_process_play ::
  "NineBoxGUI \<Rightarrow> int \<Rightarrow> move_type \<Rightarrow> Card \<Rightarrow> Card \<Rightarrow> string \<Rightarrow> py_error + NineBoxGUI" where
  "custom_process_play gui position player_choice drawn target_card actual_result =
     (let used_incl = is_inclusive player_choice;
          is_correct =
            (if used_incl
             then (player_choice = Higher_equal \<and>
                     (actual_result = ''higher'' \<or> actual_result = ''equal'')) \<or>
                  (player_choice = Lower_equal \<and>
                     (actual_result = ''lower'' \<or> actual_result = ''equal''))
             else actual_result = choice_name player_choice);
          g = game gui
      in case slot_of (g_visible_cards g) position of
           None \<Rightarrow> Inl IndexError
         | Some j \<Rightarrow>
            let g1 = g\<lparr>g_move_history :=
                        \<lparr>m_drawn_card = Some drawn, m_position = position,
                         m_old_card = g_visible_cards g ! j, m_used_inclusive = used_incl,
                         m_failed_boxes = g_failed_boxes g,
                         m_inclusive_moves_remaining = g_inclusive_choices_remaining g,
                         m_count1 = count1 gui, m_count2 = count2 gui,
                         m_count3 = count3 gui\<rparr> # g_move_history g\<rparr>;
                gui1 = update_counts gui drawn;
                g2 = (if is_correct
                      then g1\<lparr>g_visible_cards := (g_visible_cards g1)[j := Some drawn]\<rparr>
                      else g1\<lparr>g_failed_boxes :=
                                AList.update position target_card (g_failed_boxes g1),
                              g_visible_cards := (g_visible_cards g1)[j := None]\<rparr>)
            in Inr (gui1\<lparr>game := g2\<lparr>g_remaining_deck :=
                      filter (\<lambda>c. Card_str c \<noteq> Card_str drawn) (g_remaining_deck g2)\<rparr>\<rparr>))"

text \<open>
  \<open>custom_card_button_click\<close> is \<^verbatim>\<open>CustomGameGUI.card_button_click\<close> with the
  answer of the choice dialog as the argument \<open>player_choice\<close>. The dialog's
  \<^verbatim>\<open>make_choice\<close> takes the inclusive choice from the budget before
  \<^verbatim>\<open>process_play\<close> runs; with an empty budget it keeps the dialog open, which
  is modelled as no play. The method catches every exception and reports it.
\<close>

definition custom_card_button_click ::
  "NineBoxGUI \<Rightarrow> int \<Rightarrow> Card \<Rightarrow> move_type \<Rightarrow> NineBoxGUI" where
  "custom_card_button_click gui position drawn player_choice =
     (case slot_of (g_visible_cards (game gui)) position of
        None \<Rightarrow> gui
      | Some j \<Rightarrow>
         (case g_visible_cards (game gui) ! j of
            None \<Rightarrow> gui
          | Some target_card \<Rightarrow>
             (case (if is_inclusive player_choice then use_inclusive_choice (game gui)
                    else (True, game gui)) of
                (False, _) \<Rightarrow> gui
              | (True, g1) \<Rightarrow>
                 (case custom_process_play (gui\<lparr>game := g1\<rparr>) position player_choice
                         drawn target_card (compare_cards drawn target_card) of
                    Inl e \<Rightarrow> gui\<lparr>game := g1\<rparr>
                  | Inr gui' \<Rightarrow> gui'))))"

section \<open>The parameter search (BTBOptimizer.py)\<close>











section \<open>Example positions\<close>

text \<open>
  \<open>full_deck\<close> is the deck that \<^verbatim>\<open>setup_with_jokers\<close> builds. The positions
  below are late positions of a game with two jokers: nine cards face up and a
  short remaining deck that the statements give explicitly.
\<close>

definition full_deck :: "int \<Rightarrow> Card list" where
  "full_deck joker_count =
     concat (map (\<lambda>s. map (\<lambda>v. Card_init v s False) [1 .. 13]) [''S'', ''H'', ''D'', ''C''])
     @ replicate (nat joker_count) (Card_init 0 [] True)"

definition example_box :: "Card option list" where
  "example_box =
     [Some (Card_init 2 ''S'' False), Some (Card_init 3 ''S'' False),
      Some (Card_init 4 ''S'' False), Some (Card_init 6 ''S'' False),
      Some (Card_init 7 ''S'' False), Some (Card_init 8 ''S'' False),
      Some (Card_init 10 ''S'' False), Some (Card_init 11 ''S'' False),
      Some (Card_init 5 ''S'' False)]"

definition example_gui :: "Card option list \<Rightarrow> Card list \<Rightarrow> int \<Rightarrow> NineBoxGUI" where
  "example_gui visible deck inclusive_choices =
     \<lparr>game = \<lparr>g_deck = full_deck 2, g_visible_cards = visible, g_remaining_deck = deck,
              g_move_history = [], g_inclusive_choices_remaining = inclusive_choices,
              g_failed_boxes = [], g_num_jokers = 2, g_show_failed_cards = False\<rparr>,
      count1 = 0, count2 = 0, count3 = 0\<rparr>"

section \<open>Predicates used in the proofs\<close>

text \<open>
  \<open>sound_best\<close> describes the pair of \<^verbatim>\<open>best_prob\<close> and \<^verbatim>\<open>best_move\<close> that
  \<^verbatim>\<open>find_best_move\<close> carries through its loops: a chosen move names a slot
  that holds a card, an inclusive move is chosen only while inclusive moves
  remain, and a chosen recovery position is the largest key of \<^verbatim>\<open>failed_boxes\<close>.
\<close>

definition sound_best :: "GameState \<Rightarrow> best \<Rightarrow> bool" where
  "sound_best s acc =
     (case snd acc of
        None \<Rightarrow> True
      | Some (pos, move, rp) \<Rightarrow>
          0 \<le> pos \<and> pos < int (length (visible_cards s)) \<and>
          visible_cards s ! nat pos \<noteq> None \<and>
          (is_inclusive move \<longrightarrow> 0 < inclusive_moves_remaining s) \<and>
          (case rp of
             None \<Rightarrow> True
           | Some r \<Rightarrow> is_inclusive move \<and> failed_boxes s \<noteq> [] \<and>
               r = Max (set (map fst (failed_boxes s)))))"

section \<open>Terminal states\<close>

text \<open>
  C6. \<^verbatim>\<open>has_won\<close> holds exactly when the remaining deck is empty and some
  visible slot still holds a card; \<^verbatim>\<open>is_game_over\<close> holds exactly when the
  remaining deck is empty or every slot is empty; and a state with an empty deck
  and no card in any slot is over and not won.
\<close>

theorem game_over_and_won_characterised:
  "(has_won s \<longleftrightarrow>
      remaining_deck s = [] \<and>
      (\<exists>i < length (visible_cards s). visible_cards s ! i \<noteq> None)) \<and>
   (is_game_over s \<longleftrightarrow>
      remaining_deck s = [] \<or>
      (\<forall>i < length (visible_cards s). visible_cards s ! i = None)) \<and>
   (remaining_deck s = [] \<and>
      (\<forall>i < length (visible_cards s). visible_cards s ! i = None) \<longrightarrow>
      is_game_over s \<and> \<not> has_won s)"
proof -
  have ex: "list_ex (\<lambda>c. c \<noteq> None) (visible_cards s) \<longleftrightarrow>
      (\<exists>i < length (visible_cards s). visible_cards s ! i \<noteq> None)"
    by (simp add: list_ex_length)
  have al: "list_all (\<lambda>c. c = None) (visible_cards s) \<longleftrightarrow>
      (\<forall>i < length (visible_cards s). visible_cards s ! i = None)"
    by (simp add: list_all_length)
  have won: "has_won s \<longleftrightarrow> remaining_deck s = [] \<and>
      (\<exists>i < length (visible_cards s). visible_cards s ! i \<noteq> None)"
    by (simp only: has_won_def ex)
  have over: "is_game_over s \<longleftrightarrow> remaining_deck s = [] \<or>
      (\<forall>i < length (visible_cards s). visible_cards s ! i = None)"
    by (simp only: is_game_over_def al disj_commute)
  have lost: "remaining_deck s = [] \<and>
      (\<forall>i < length (visible_cards s). visible_cards s ! i = None) \<longrightarrow>
      is_game_over s \<and> \<not> has_won s"
    by (simp add: won over)
  from won over lost show ?thesis by (intro conjI)
qed

theorem game_over_and_won_characterised_witness:
  "is_game_over \<lparr>visible_cards = replicate 9 None, remaining_deck = [],
      failed_boxes = [], inclusive_moves_remaining = 5, inclusive_threshold = 5,
      moves_used = 0, inclusive_moves_used = 0, jokers_drawn = 0\<rparr> \<and>
   \<not> has_won \<lparr>visible_cards = replicate 9 None, remaining_deck = [],
      failed_boxes = [], inclusive_moves_remaining = 5, inclusive_threshold = 5,
      moves_used = 0, inclusive_moves_used = 0, jokers_drawn = 0\<rparr>"
proof -
  let ?s = "\<lparr>visible_cards = replicate 9 None, remaining_deck = [],
      failed_boxes = [], inclusive_moves_remaining = 5, inclusive_threshold = 5,
      moves_used = 0, inclusive_moves_used = 0, jokers_drawn = 0\<rparr>"
  have h: "remaining_deck ?s = [] \<and>
      (\<forall>i < length (visible_cards ?s). visible_cards ?s ! i = None)"
    by simp
  from game_over_and_won_characterised [of ?s]
  have "remaining_deck ?s = [] \<and>
      (\<forall>i < length (visible_cards ?s). visible_cards ?s ! i = None) \<longrightarrow>
      is_game_over ?s \<and> \<not> has_won ?s"
    by (rule conjunct2 [THEN conjunct2])
  from this h show ?thesis by (rule mp)
qed

section \<open>Undo in the game with chosen cards\<close>

text \<open>
  C2. A move followed at once by undo should give back the state before the
  move: the visible cards, the remaining deck in its order, the failed boxes and
  the inclusive budget. In \<^verbatim>\<open>CustomGameGUI\<close> it does not. The position has the
  nine example cards face up, the deck 3D, 9H and one inclusive choice left. The
  player chooses 9H from the deck and plays "higher or equal" on position 0.
  \<^verbatim>\<open>make_choice\<close> takes the inclusive choice before \<^verbatim>\<open>process_play\<close> stores
  the budget in the undo record, so undo restores the budget 0, not 1; and the
  card comes back on top of the deck, not at the place it was taken from.
\<close>

theorem custom_play_then_undo_not_restored:
  "undo_move (custom_card_button_click
       (example_gui example_box [Card_init 3 ''D'' False, Card_init 9 ''H'' False] 1)
       0 (Card_init 9 ''H'' False) Higher_equal)
   = Inr (example_gui example_box [Card_init 9 ''H'' False, Card_init 3 ''D'' False] 0)"
  by code_simp

section \<open>Jokers in the game with chosen cards\<close>


section \<open>Conservation of cards in the game with chosen cards\<close>


section \<open>Positions outside the box\<close>

text \<open>
  C8. A move on a position outside 0..8 should be refused and leave the state
  as it is. \<^verbatim>\<open>execute_move\<close> only tests \<^verbatim>\<open>position >= len(self.visible_cards)\<close>;
  position -1 passes the test and Python's subscript reads the last slot. With
  the nine example cards and the deck 9H, 3D, the move "higher" on position -1
  draws the 9H and puts it on slot 8.
\<close>

theorem execute_move_negative_position_plays:
  "execute_move
     (GameState_init example_box [Card_init 9 ''H'' False, Card_init 3 ''D'' False] 5 5)
     (- 1) Higher None
   = Inr (True,
       (GameState_init (example_box[8 := Some (Card_init 9 ''H'' False)])
          [Card_init 3 ''D'' False] 5 5)\<lparr>moves_used := 1\<rparr>)"
  by code_simp

section \<open>Facts about the simulator's engine and heuristic\<close>

lemma execute_move_refused:
  assumes "remaining_deck s = [] \<or> int (length (visible_cards s)) \<le> position \<or>
     (\<exists>j. slot_of (visible_cards s) position = Some j \<and> visible_cards s ! j = None)"
  shows "execute_move s position move rp = Inr (False, s)"
  using assms by (auto simp: execute_move_def split: list.splits option.splits)





lemma fold_invariant:
  assumes "P a" and "\<And>x b. x \<in> set xs \<Longrightarrow> P b \<Longrightarrow> P (f x b)"
  shows "P (fold f xs a)"
  using assms by (induction xs arbitrary: a) auto

lemma regular_step_sound:
  assumes "sound_best s acc" "i < length (visible_cards s)" "visible_cards s ! i \<noteq> None"
    "\<not> is_inclusive move"
  shows "sound_best s (regular_step p (int i) move acc)"
  using assms by (cases acc) (auto simp: sound_best_def regular_step_def)

lemma inclusive_step_sound:
  assumes "sound_best s acc" "i < length (visible_cards s)" "visible_cards s ! i \<noteq> None"
    "is_inclusive move" "0 < inclusive_moves_remaining s"
  shows "sound_best s (inclusive_step s p (int i) move acc)"
  using assms by (cases acc) (auto simp: sound_best_def inclusive_step_def Let_def)

lemma position_step_sound:
  assumes acc: "sound_best s acc" and i: "i < length (visible_cards s)"
    and slot: "visible_cards s ! i = slot"
  shows "sound_best s (position_step s (i, slot) acc)"
proof (cases slot)
  case None
  with acc show ?thesis by (simp add: position_step_def)
next
  case (Some c)
  show ?thesis
  proof (cases "calculate_move_probabilities c (remaining_deck s)")
    case None
    with Some acc show ?thesis by (simp add: position_step_def)
  next
    case p: (Some p)
    have ne: "visible_cards s ! i \<noteq> None" using slot Some by simp
    have r1: "sound_best s (regular_step p (int i) Higher acc)"
      by (rule regular_step_sound [OF acc i ne]) (simp add: is_inclusive_def)
    have r2: "sound_best s (regular_step p (int i) Lower (regular_step p (int i) Higher acc))"
      by (rule regular_step_sound [OF r1 i ne]) (simp add: is_inclusive_def)
    show ?thesis
    proof (cases "0 < inclusive_moves_remaining s")
      case False
      with Some p r2 show ?thesis by (simp add: position_step_def)
    next
      case True
      have i1: "sound_best s (inclusive_step s p (int i) Higher_equal
          (regular_step p (int i) Lower (regular_step p (int i) Higher acc)))"
        by (rule inclusive_step_sound [OF r2 i ne _ True]) (simp add: is_inclusive_def)
      have i2: "sound_best s (inclusive_step s p (int i) Lower_equal
          (inclusive_step s p (int i) Higher_equal
          (regular_step p (int i) Lower (regular_step p (int i) Higher acc))))"
        by (rule inclusive_step_sound [OF i1 i ne _ True]) (simp add: is_inclusive_def)
      from Some p True i2 show ?thesis by (simp add: position_step_def)
    qed
  qed
qed

lemma find_best_move_sound_best:
  "sound_best s (fold (position_step s) (enumerate 0 (visible_cards s)) (- 1, None))"
proof (rule fold_invariant)
  show "sound_best s (- 1, None)" by (simp add: sound_best_def)
next
  fix x b
  assume x: "x \<in> set (enumerate 0 (visible_cards s))" and b: "sound_best s b"
  obtain i slot where xi: "x = (i, slot)" by (cases x)
  from x xi have "i < length (visible_cards s)" "visible_cards s ! i = slot"
    by (auto simp: in_set_enumerate_eq)
  with b xi show "sound_best s (position_step s x b)"
    by (simp add: position_step_sound)
qed

lemma find_best_move_sound:
  assumes "find_best_move s = Some (pos, move, rp)"
  shows "0 \<le> pos" "pos < int (length (visible_cards s))"
    "visible_cards s ! nat pos \<noteq> None"
    "is_inclusive move \<Longrightarrow> 0 < inclusive_moves_remaining s"
    "rp = Some r \<Longrightarrow> is_inclusive move \<and> failed_boxes s \<noteq> [] \<and>
        r = Max (set (map fst (failed_boxes s)))"
  using assms find_best_move_sound_best [of s]
  by (auto simp: find_best_move_def sound_best_def split: option.splits)

lemma execute_move_budget:
  assumes "execute_move s position move rp = Inr (ok, s')"
  shows "inclusive_moves_remaining s' = inclusive_moves_remaining s \<or>
         (is_inclusive move \<and> inclusive_moves_remaining s' = inclusive_moves_remaining s - 1)"
  using assms
  by (auto simp: execute_move_def Let_def recover_position_def
      split: list.splits option.splits if_splits sum.splits)

lemma make_best_move_budget:
  assumes nonneg: "0 \<le> inclusive_moves_remaining s"
    and run: "make_best_move s = Inr (ok, s')"
  shows "0 \<le> inclusive_moves_remaining s'"
proof (cases "filter (\<lambda>i. visible_cards s ! i \<noteq> None) [0 ..< length (visible_cards s)]")
  case Nil
  with run nonneg show ?thesis by (simp add: make_best_move_def)
next
  case (Cons first_valid others)
  show ?thesis
  proof (cases "find_best_move s")
    case None
    with Cons run have "execute_move s (int first_valid) Higher None = Inr (ok, s') \<or>
        execute_move s (int first_valid) Lower None = Inr (ok, s')"
      by (auto simp: make_best_move_def split: option.splits if_splits)
    then show ?thesis
    proof
      assume "execute_move s (int first_valid) Higher None = Inr (ok, s')"
      from execute_move_budget [OF this] nonneg show ?thesis
        by (auto simp: is_inclusive_def)
    next
      assume "execute_move s (int first_valid) Lower None = Inr (ok, s')"
      from execute_move_budget [OF this] nonneg show ?thesis
        by (auto simp: is_inclusive_def)
    qed
  next
    case (Some m)
    obtain pos move rp where m: "m = (pos, move, rp)" by (cases m)
    with Some Cons run have ex: "execute_move s pos move rp = Inr (ok, s')"
      by (simp add: make_best_move_def)
    from Some m have "is_inclusive move \<Longrightarrow> 0 < inclusive_moves_remaining s"
      by (simp add: find_best_move_sound(4))
    with execute_move_budget [OF ex] nonneg show ?thesis by auto
  qed
qed

section \<open>Recovery of a failed position\<close>




section \<open>The inclusive budget\<close>

text \<open>
  C4 as stated: with budget 0 an inclusive move is refused and the state stays
  as it is. The simulator's \<^verbatim>\<open>execute_move\<close> has no such check. With budget 0
  the move "higher or equal" on position 0 draws the 9H, succeeds, and leaves
  the budget at -1.
\<close>

theorem execute_move_ignores_budget_counterexample:
  "inclusive_moves_remaining
     (GameState_init example_box [Card_init 9 ''H'' False, Card_init 3 ''D'' False] 0 5) = 0 \<and>
   execute_move
     (GameState_init example_box [Card_init 9 ''H'' False, Card_init 3 ''D'' False] 0 5)
     0 Higher_equal None
   = Inr (True,
       (GameState_init (example_box[0 := Some (Card_init 9 ''H'' False)])
          [Card_init 3 ''D'' False] (- 1) 5)\<lparr>moves_used := 1, inclusive_moves_used := 1\<rparr>)"
  by code_simp

text \<open>
  C4, amended. The check lives in the callers of the engine. In the interactive
  game \<^verbatim>\<open>use_inclusive_choice\<close> refuses at budget 0 and leaves the game as it
  is, \<^verbatim>\<open>process_play\<close> and the card-choosing variant then return with the whole
  state unchanged, and neither \<^verbatim>\<open>use_inclusive_choice\<close> nor \<^verbatim>\<open>process_play\<close>
  makes a non-negative budget negative. In the simulator \<^verbatim>\<open>find_best_move\<close>
  proposes an inclusive move only while \<^verbatim>\<open>inclusive_moves_remaining > 0\<close>, so
  every move made by \<^verbatim>\<open>make_best_move\<close> keeps a non-negative budget
  non-negative.
\<close>

theorem inclusive_budget_guarded:
  "(g_inclusive_choices_remaining g = 0 \<longrightarrow> use_inclusive_choice g = (False, g)) \<and>
   (g_inclusive_choices_remaining (game gui) = 0 \<and> is_inclusive choice \<longrightarrow>
      process_play gui position choice = Inr gui \<and>
      custom_card_button_click gui position drawn choice = gui) \<and>
   (0 \<le> g_inclusive_choices_remaining g \<longrightarrow>
      0 \<le> g_inclusive_choices_remaining (snd (use_inclusive_choice g))) \<and>
   (0 \<le> g_inclusive_choices_remaining (game gui) \<and>
      process_play gui position choice = Inr gui' \<longrightarrow>
      0 \<le> g_inclusive_choices_remaining (game gui')) \<and>
   (0 \<le> inclusive_moves_remaining s \<and> make_best_move s = Inr (ok, s') \<longrightarrow>
      0 \<le> inclusive_moves_remaining s')"
proof -
  have a: "g_inclusive_choices_remaining g = 0 \<longrightarrow> use_inclusive_choice g = (False, g)"
    by (simp add: use_inclusive_choice_def)
  have b: "g_inclusive_choices_remaining (game gui) = 0 \<and> is_inclusive choice \<longrightarrow>
      process_play gui position choice = Inr gui \<and>
      custom_card_button_click gui position drawn choice = gui"
    by (simp add: process_play_def custom_card_button_click_def use_inclusive_choice_def
        split: option.splits)
  have c: "0 \<le> g_inclusive_choices_remaining g \<longrightarrow>
      0 \<le> g_inclusive_choices_remaining (snd (use_inclusive_choice g))"
    by (simp add: use_inclusive_choice_def)
  have d: "0 \<le> g_inclusive_choices_remaining (game gui) \<and>
      process_play gui position choice = Inr gui' \<longrightarrow>
      0 \<le> g_inclusive_choices_remaining (game gui')"
    by (auto simp: process_play_def use_inclusive_choice_def Let_def finish_play_def
        remove_top_card_def draw_card_def
        split: option.splits if_splits list.splits)
  have e: "0 \<le> inclusive_moves_remaining s \<and> make_best_move s = Inr (ok, s') \<longrightarrow>
      0 \<le> inclusive_moves_remaining s'"
    using make_best_move_budget by blast
  from a b c d e show ?thesis by (intro conjI)
qed

theorem inclusive_budget_guarded_witness:
  "use_inclusive_choice (game (example_gui example_box [Card_init 3 ''D'' False] 0))
     = (False, game (example_gui example_box [Card_init 3 ''D'' False] 0)) \<and>
   process_play (example_gui example_box [Card_init 3 ''D'' False] 0) 0 Higher_equal
     = Inr (example_gui example_box [Card_init 3 ''D'' False] 0) \<and>
   custom_card_button_click (example_gui example_box [Card_init 3 ''D'' False] 0) 0
       (Card_init 3 ''D'' False) Higher_equal
     = example_gui example_box [Card_init 3 ''D'' False] 0 \<and>
   0 \<le> inclusive_moves_remaining
     ((GameState_init (example_box[0 := Some (Card_init 2 ''H'' False)])
        [Card_init 9 ''H'' False] 0 5)\<lparr>moves_used := 1, inclusive_moves_used := 1\<rparr>)"
proof -
  let ?gui = "example_gui example_box [Card_init 3 ''D'' False] 0"
  let ?s = "GameState_init example_box [Card_init 2 ''H'' False, Card_init 9 ''H'' False] 1 5"
  let ?s' = "(GameState_init (example_box[0 := Some (Card_init 2 ''H'' False)])
        [Card_init 9 ''H'' False] 0 5)\<lparr>moves_used := 1, inclusive_moves_used := 1\<rparr>"
  have h1: "g_inclusive_choices_remaining (game ?gui) = 0" by code_simp
  have h2: "is_inclusive Higher_equal" by code_simp
  have h3: "0 \<le> inclusive_moves_remaining ?s" by code_simp
  have h4: "make_best_move ?s = Inr (True, ?s')" by code_simp
  from inclusive_budget_guarded
    [of "game ?gui" ?gui Higher_equal 0 "Card_init 3 ''D'' False" ?gui ?s True ?s']
    h1 h2 h3 h4
  show ?thesis by blast
qed

section \<open>Choosing an inclusive move\<close>




section \<open>The two probability calculations\<close>







section \<open>The grid search\<close>










section \<open>Play and undo in the dealt game\<close>

text \<open>
  The dealt game (\<^verbatim>\<open>NineBoxGUI\<close> in BTBGamePlayer.py) records the number of
  inclusive choices before it spends one and takes the drawn card from the front
  of the deck. A play that was recorded in the history is therefore taken back
  completely by \<^verbatim>\<open>undo_move\<close>, as far as the fields of the game are concerned.
  The simulator (\<^verbatim>\<open>GameState.check_move_success\<close> in BTBSimulator.py) resolves
  every move with a joker as a success.
\<close>

lemma slot_of_bound: "slot_of xs i = Some j \<Longrightarrow> j < length xs"
  by (auto simp: slot_of_def split: if_splits)

lemma slot_of_update [simp]: "slot_of (xs[j := v]) i = slot_of xs i"
  by (simp add: slot_of_def)

lemma check_move_success_joker:
  "is_joker drawn \<or> is_joker target \<Longrightarrow> check_move_success move drawn target"
  by (simp add: check_move_success_def)

lemma list_update_same: "xs ! j = v \<Longrightarrow> xs[j := v] = xs"
  by (metis list_update_id)

lemma nine_box_play_then_undo:
  assumes play: "process_play gui position choice = Inr gui'"
    and moved: "g_move_history (game gui') \<noteq> g_move_history (game gui)"
    and jokers: "\<forall>c \<in> set (g_remaining_deck (game gui)). is_joker c \<longrightarrow> c = Card_init 0 [] True"
  shows "\<exists>gui''. undo_move gui' = Inr gui'' \<and> game gui'' = game gui"
  using assms
  by (auto simp: process_play_def undo_move_def undo_last_move_def use_inclusive_choice_def
      draw_card_def finish_play_def remove_top_card_def Let_def
      slot_of_bound list_update_same
      split: if_splits option.splits list.splits)

lemma nine_box_play_then_undo_example:
  "(case process_play
           (example_gui example_box [Card_init 9 ''H'' False, Card_init 3 ''D'' False] 1)
           0 Higher_equal of
      Inl e \<Rightarrow> False
    | Inr gui' \<Rightarrow>
        g_inclusive_choices_remaining (game gui') = 0 \<and>
        g_remaining_deck (game gui') = [Card_init 3 ''D'' False] \<and>
        (case undo_move gui' of
           Inl e \<Rightarrow> False
         | Inr gui'' \<Rightarrow>
             game gui'' =
               game (example_gui example_box
                       [Card_init 9 ''H'' False, Card_init 3 ''D'' False] 1)))"
  by code_simp

end
